theory Spec2Isabelle
  imports Complex_Main
begin

section \<open>The presentation layer: \<^verbatim>\<open>App.tsx\<close>\<close>

subsection \<open>Values\<close>

text \<open>
  The union type \<^verbatim>\<open>Stage\<close> of \<^verbatim>\<open>App.tsx\<close> has four members, each a string
  literal. The datatype has one constructor per member and \<open>stage_text\<close> gives the
  literal itself, which is the value the state holds and the payload carries.
\<close>

datatype Stage =
    Transcript_Generator
  | Transcript_Validator
  | Signal_Extractor
  | Shadow_Validator

fun stage_text :: "Stage \<Rightarrow> string" where
  "stage_text Transcript_Generator = ''Transcript Generator''"
| "stage_text Transcript_Validator = ''Transcript Validator''"
| "stage_text Signal_Extractor = ''Signal Extractor''"
| "stage_text Shadow_Validator = ''Shadow Validator''"

text \<open>
  A JavaScript number: a finite value (kept as a rational, the rounding of doubles plays
  no part here), or one of the three non-finite values.
\<close>

datatype number = Finite rat | NaN | PosInfinity | NegInfinity

text \<open>JSON values; an object keeps its members in the order they were written.\<close>

datatype json =
    JNull
  | JBool bool
  | JNumber rat
  | JString string
  | JArray "json list"
  | JObject "(string \<times> json) list"

text \<open>\<^verbatim>\<open>JSON.stringify\<close> writes a non-finite number as \<^verbatim>\<open>null\<close>.\<close>

fun json_of_number :: "number \<Rightarrow> json" where
  "json_of_number (Finite q) = JNumber q"
| "json_of_number NaN = JNull"
| "json_of_number PosInfinity = JNull"
| "json_of_number NegInfinity = JNull"

text \<open>
  The decimal text of a natural number, as a template literal renders an integral
  number (\<^verbatim>\<open>`HTTP ${res.status}`\<close>).
\<close>

definition digit_char :: "nat \<Rightarrow> char" where
  "digit_char d = ''0123456789'' ! d"

fun decimal :: "nat \<Rightarrow> string" where
  "decimal n = (if n < 10 then [digit_char n] else decimal (n div 10) @ [digit_char (n mod 10)])"

declare decimal.simps [simp del]

subsection \<open>The component state\<close>

text \<open>The nine \<^verbatim>\<open>useState\<close> cells of \<^verbatim>\<open>App\<close>, with their initial values.\<close>

record app_state =
  stage :: Stage
  projectId :: string
  dataset :: string
  sourceVersion :: string
  targetVersion :: string
  limit :: number
  result :: "json option"
  loading :: bool
  error :: "string option"

definition init :: app_state where
  "init = \<lparr> stage = Transcript_Generator, projectId = '''', dataset = '''',
             sourceVersion = '''', targetVersion = '''', limit = Finite 100,
             result = None, loading = False, error = None \<rparr>"

subsection \<open>The request\<close>

text \<open>
  \<^verbatim>\<open>const payload = { stage, projectId, dataset, sourceVersion, targetVersion, limit }\<close>
  and its \<^verbatim>\<open>JSON.stringify\<close>: the body is kept as the JSON value the text denotes.
\<close>

record request =
  url :: string
  http_method :: string
  headers :: "(string \<times> string) list"
  body :: json

definition payload :: "app_state \<Rightarrow> json" where
  "payload s = JObject
     [ (''stage'', JString (stage_text (stage s))),
       (''projectId'', JString (projectId s)),
       (''dataset'', JString (dataset s)),
       (''sourceVersion'', JString (sourceVersion s)),
       (''targetVersion'', JString (targetVersion s)),
       (''limit'', json_of_number (limit s)) ]"

definition run_request :: "app_state \<Rightarrow> request" where
  "run_request s = \<lparr> url = ''/api/run'', http_method = ''POST'',
                     headers = [(''Content-Type'', ''application/json'')],
                     body = payload s \<rparr>"

subsection \<open>What the network answers\<close>

text \<open>
  An awaited promise is fulfilled, rejected, or never settles. A thrown value is an
  object whose \<^verbatim>\<open>message\<close> is a string or is missing, or it is
  \<^verbatim>\<open>null\<close>/\<^verbatim>\<open>undefined\<close>, on which reading \<^verbatim>\<open>e.message\<close> itself throws.
\<close>

datatype thrown = ErrorObject (message: "string option") | Nullish

datatype 'a promise = Fulfilled 'a | Rejected thrown | Pending

record response =
  ok :: bool
  status :: nat
  json :: "json promise"

subsection \<open>\<^verbatim>\<open>handleRun\<close>\<close>

text \<open>
  The actions \<^verbatim>\<open>handleRun\<close> performs, in order: the three state setters, the call of
  \<^verbatim>\<open>fetch\<close> and the call of \<^verbatim>\<open>res.json()\<close>, which reads the response body.
\<close>

datatype effect =
    SetLoading bool
  | SetError "string option"
  | SetResult "json option"
  | Fetch request
  | ReadBody

text \<open>
  How the asynchronous function ends: it returns, its own \<^verbatim>\<open>catch\<close> block throws
  (a \<^verbatim>\<open>TypeError\<close> on a nullish thrown value), or it stays suspended at an
  \<^verbatim>\<open>await\<close> for ever.
\<close>

datatype completion = Returned | ThrewTypeError | Suspended

text \<open>\<^verbatim>\<open>finally { setLoading(false); }\<close>\<close>

definition finally_block :: "effect list" where
  "finally_block = [SetLoading False]"

text \<open>\<^verbatim>\<open>catch (e: any) { setError(e.message ?? "Unknown error"); }\<close>, then the finally block.\<close>

fun catch_block :: "thrown \<Rightarrow> effect list \<times> completion" where
  "catch_block (ErrorObject m) =
     (SetError (Some (case m of Some msg \<Rightarrow> msg | None \<Rightarrow> ''Unknown error'')) # finally_block,
      Returned)"
| "catch_block Nullish = (finally_block, ThrewTypeError)"

text \<open>The body of the \<^verbatim>\<open>try\<close> block after \<^verbatim>\<open>await fetch(...)\<close> has settled.\<close>

definition after_fetch :: "response promise \<Rightarrow> effect list \<times> completion" where
  "after_fetch net =
     (case net of
        Pending \<Rightarrow> ([], Suspended)
      | Rejected e \<Rightarrow> catch_block e
      | Fulfilled res \<Rightarrow>
          if \<not> ok res then catch_block (ErrorObject (Some (''HTTP '' @ decimal (status res))))
          else (case json res of
                  Pending \<Rightarrow> ([ReadBody], Suspended)
                | Rejected e \<Rightarrow> (ReadBody # fst (catch_block e), snd (catch_block e))
                | Fulfilled data \<Rightarrow> (ReadBody # SetResult (Some data) # finally_block, Returned)))"

definition handleRun :: "app_state \<Rightarrow> response promise \<Rightarrow> effect list \<times> completion" where
  "handleRun s net =
     ([SetLoading True, SetError None, SetResult None, Fetch (run_request s)] @ fst (after_fetch net),
      snd (after_fetch net))"


text \<open>The state after a sequence of actions: each setter replaces its cell.\<close>

fun apply_effect :: "app_state \<Rightarrow> effect \<Rightarrow> app_state" where
  "apply_effect s (SetLoading b) = s\<lparr>loading := b\<rparr>"
| "apply_effect s (SetError e) = s\<lparr>error := e\<rparr>"
| "apply_effect s (SetResult r) = s\<lparr>result := r\<rparr>"
| "apply_effect s (Fetch r) = s"
| "apply_effect s ReadBody = s"

definition state_after :: "app_state \<Rightarrow> effect list \<Rightarrow> app_state" where
  "state_after s effs = foldl apply_effect s effs"

text \<open>The requests among the actions.\<close>

fun requests :: "effect list \<Rightarrow> request list" where
  "requests [] = []"
| "requests (Fetch r # effs) = r # requests effs"
| "requests (_ # effs) = requests effs"

subsection \<open>The form\<close>

text \<open>
  The \<^verbatim>\<open>onChange\<close> handlers and the Run button. The select offers the four options
  of \<^verbatim>\<open>Stage\<close>; the limit handler stores \<^verbatim>\<open>Number(e.target.value)\<close>, the number
  the event carries here. A click carries what the network will answer.
\<close>

datatype event =
    ChangeStage Stage
  | ChangeProjectId string
  | ChangeDataset string
  | ChangeSourceVersion string
  | ChangeTargetVersion string
  | ChangeLimit number
  | ClickRun "response promise"

fun handle :: "app_state \<Rightarrow> event \<Rightarrow> app_state" where
  "handle s (ChangeStage st) = s\<lparr>stage := st\<rparr>"
| "handle s (ChangeProjectId v) = s\<lparr>projectId := v\<rparr>"
| "handle s (ChangeDataset v) = s\<lparr>dataset := v\<rparr>"
| "handle s (ChangeSourceVersion v) = s\<lparr>sourceVersion := v\<rparr>"
| "handle s (ChangeTargetVersion v) = s\<lparr>targetVersion := v\<rparr>"
| "handle s (ChangeLimit n) = s\<lparr>limit := n\<rparr>"
| "handle s (ClickRun net) = state_after s (fst (handleRun s net))"

definition after_events :: "event list \<Rightarrow> app_state" where
  "after_events evs = foldl handle init evs"

text \<open>
  The members of a JSON object, by name, and the JSON numbers that are integers.
\<close>

fun member_names :: "json \<Rightarrow> string list" where
  "member_names (JObject ms) = map fst ms"
| "member_names _ = []"

fun member :: "json \<Rightarrow> string \<Rightarrow> json option" where
  "member (JObject ms) k = map_of ms k"
| "member _ k = None"

fun is_integer_json :: "json \<Rightarrow> bool" where
  "is_integer_json (JNumber q) = (q = of_int \<lfloor>q\<rfloor>)"
| "is_integer_json _ = False"

section \<open>The engine behind the run request\<close>

text \<open>
  \<^verbatim>\<open>App.tsx\<close> is the caller of the run operation. The Run Coordinator, the Dataset
  Accessor, the Stage Executors and the Comparator are not among the source files, so
  every definition of this section follows the specification, says so, and names the
  part it stands for.
\<close>

subsection \<open>Data model\<close>

text \<open>
  Modelled from the spec: the stage type of the engine, missing from the source files.
  It is the closed set of four stages of sections 3 and 9.
\<close>

datatype stage_variant =
    TranscriptGenerator
  | TranscriptValidator
  | SignalExtractor
  | ShadowValidator

text \<open>
  Modelled from the spec: the scalar values of a row, missing from the source files.
  Section 4.4 tells a numeric value from a textual one.
\<close>

datatype scalar = Numeric int | Textual string

text \<open>
  Modelled from the spec: the Row of section 3, missing from the source files: an
  ordered mapping from column name to scalar value.
\<close>

type_synonym row = "(string \<times> scalar) list"

text \<open>
  Modelled from the spec: the natural identifier of a row (section 3), missing from the
  source files: the value of the first column. A row without columns has none.
\<close>

definition natural_id :: "row \<Rightarrow> scalar option" where
  "natural_id r = (case r of [] \<Rightarrow> None | (c, v) # _ \<Rightarrow> Some v)"

text \<open>
  Modelled from the spec: the scope of a RunConfig (section 3), missing from the source
  files.
\<close>

record Scope =
  scope_projectId :: string
  scope_dataset :: string

text \<open>
  Modelled from the spec: the RunConfig of section 3, missing from the source files.
  The limit is an integer, which the Run Coordinator checks to be positive.
\<close>

record RunConfig =
  cfg_stage :: stage_variant
  cfg_scope :: Scope
  cfg_sourceVersion :: string
  cfg_targetVersion :: string
  cfg_limit :: int

text \<open>
  Modelled from the spec: the three kinds of a Discrepancy (section 3), missing from the
  source files.
\<close>

datatype discrepancy_kind = Missing | Extra | Mismatch

text \<open>
  Modelled from the spec: the Discrepancy of section 3, missing from the source files.
  A Missing or Extra entry names a row only, as in the example of section 8.
\<close>

record Discrepancy =
  rowId :: "scalar option"
  column :: "string option"
  sourceValue :: "scalar option"
  targetValue :: "scalar option"
  kind :: discrepancy_kind

text \<open>
  Modelled from the spec: the status of a StageResult (section 3), missing from the
  source files.
\<close>

datatype run_status = Success | PartialSuccess | Failed

text \<open>
  Modelled from the spec: the StageResult of section 3, missing from the source files.
\<close>

record StageResult =
  result_stage :: stage_variant
  rowsProcessed :: int
  rowsWritten :: int
  discrepancies :: "Discrepancy list"
  result_status :: run_status
  result_message :: string

text \<open>
  Modelled from the spec: the errors of section 7, missing from the source files.
  PartialFailure is not among them: it never aborts a run and shows as the status
  PartialSuccess.
\<close>

datatype engine_error =
    ConfigurationError
  | UnsupportedStageError
  | NotFoundError
  | ConflictError
  | TimeoutError

text \<open>
  Modelled from the spec: the message of a failed StageResult, missing from the source
  files; the specification asks for a message and does not give its wording, the name
  of the error stands for it.
\<close>

fun error_name :: "engine_error \<Rightarrow> string" where
  "error_name ConfigurationError = ''ConfigurationError''"
| "error_name UnsupportedStageError = ''UnsupportedStageError''"
| "error_name NotFoundError = ''NotFoundError''"
| "error_name ConflictError = ''ConflictError''"
| "error_name TimeoutError = ''TimeoutError''"

subsection \<open>Dataset Accessor\<close>

text \<open>
  Modelled from the spec: the calls a Dataset Accessor receives (section 4.2), missing
  from the source files. They are recorded so that a run which performs no I/O leaves
  the accessor as it was.
\<close>

datatype io_op =
    ReadOp Scope string nat
  | WriteOp Scope string nat bool

text \<open>
  Modelled from the spec: the Dataset Accessor of section 4.2, missing from the source
  files, as the in-memory table store the specification asks for: a scope and a version
  label give the rows of that table version.
\<close>

record accessor =
  tables :: "Scope \<times> string \<rightharpoonup> row list"
  io_log :: "io_op list"

text \<open>
  Modelled from the spec: \<open>ReadVersion(scope, version, limit)\<close> of section 4.2, missing
  from the source files. NotFoundError when the version does not exist in the scope;
  otherwise the rows in order, stopping after \<open>limit\<close> rows.
\<close>

definition ReadVersion ::
  "accessor \<Rightarrow> Scope \<Rightarrow> string \<Rightarrow> nat \<Rightarrow> (engine_error + row list) \<times> accessor" where
  "ReadVersion acc sc version n =
     ((case tables acc (sc, version) of
         None \<Rightarrow> Inl NotFoundError
       | Some rows \<Rightarrow> Inr (take n rows)),
      acc\<lparr>io_log := io_log acc @ [ReadOp sc version n]\<rparr>)"

text \<open>
  Modelled from the spec: \<open>WriteVersion(scope, version, rows, overwrite)\<close> of section
  4.2, missing from the source files. ConflictError when the version exists and
  \<open>overwrite\<close> is false; otherwise the version holds \<open>rows\<close> and the number of rows
  written is returned.
\<close>

definition WriteVersion ::
  "accessor \<Rightarrow> Scope \<Rightarrow> string \<Rightarrow> row list \<Rightarrow> bool \<Rightarrow> (engine_error + int) \<times> accessor" where
  "WriteVersion acc sc version rows overwrite =
     (if tables acc (sc, version) \<noteq> None \<and> \<not> overwrite
      then (Inl ConflictError,
            acc\<lparr>io_log := io_log acc @ [WriteOp sc version (length rows) overwrite]\<rparr>)
      else (Inr (int (length rows)),
            acc\<lparr>tables := (tables acc)((sc, version) \<mapsto> rows),
                io_log := io_log acc @ [WriteOp sc version (length rows) overwrite]\<rparr>))"

subsection \<open>Comparator\<close>

text \<open>
  Modelled from the spec: the index of the target rows by natural identifier (section
  4.4), missing from the source files. It is built row by row, so of two target rows
  with the same identifier the later one is the one indexed.
\<close>

definition index_by_id :: "row list \<Rightarrow> (scalar option \<rightharpoonup> row)" where
  "index_by_id rows = foldl (\<lambda>idx r. idx(natural_id r \<mapsto> r)) Map.empty rows"

text \<open>
  Modelled from the spec: the columns present in either row (section 4.4), missing from
  the source files, in column order: those of the source row, then those of the target
  row that the source row lacks.
\<close>

definition columns_of :: "row \<Rightarrow> row \<Rightarrow> string list" where
  "columns_of s t = map fst s @ filter (\<lambda>c. c \<notin> set (map fst s)) (map fst t)"

text \<open>
  Modelled from the spec: the column-by-column comparison of a source row with its
  target row (section 4.4), missing from the source files: one Mismatch for each column
  whose values differ. The comparison is exact: a number and a text are never equal, and
  a column present on one side only differs.
\<close>

definition compare_columns :: "row \<Rightarrow> row \<Rightarrow> Discrepancy list" where
  "compare_columns s t =
     map (\<lambda>c. \<lparr> rowId = natural_id s, column = Some c, sourceValue = map_of s c,
                 targetValue = map_of t c, kind = Mismatch \<rparr>)
         (filter (\<lambda>c. map_of s c \<noteq> map_of t c) (columns_of s t))"

text \<open>
  Modelled from the spec: the Missing or Extra entry of a row without a partner
  (section 4.4), missing from the source files.
\<close>

definition unmatched :: "discrepancy_kind \<Rightarrow> row \<Rightarrow> Discrepancy" where
  "unmatched k r = \<lparr> rowId = natural_id r, column = None, sourceValue = None,
                     targetValue = None, kind = k \<rparr>"

text \<open>
  Modelled from the spec: what the Comparator emits for one source row (section 4.4),
  missing from the source files: Missing when the index has no row with its identifier,
  the column mismatches otherwise.
\<close>

definition compare_source_row :: "(scalar option \<rightharpoonup> row) \<Rightarrow> row \<Rightarrow> Discrepancy list" where
  "compare_source_row idx s =
     (case idx (natural_id s) of
        None \<Rightarrow> [unmatched Missing s]
      | Some t \<Rightarrow> compare_columns s t)"

text \<open>
  Modelled from the spec: \<open>Compare(sourceRows, targetRows)\<close> of section 4.4, missing
  from the source files: the discrepancies of the source rows in source order, then one
  Extra for each target row whose identifier no source row has, in target order.
\<close>

definition Compare :: "row list \<Rightarrow> row list \<Rightarrow> Discrepancy list" where
  "Compare sourceRows targetRows =
     concat (map (compare_source_row (index_by_id targetRows)) sourceRows)
     @ map (unmatched Extra)
         (filter (\<lambda>t. natural_id t \<notin> set (map natural_id sourceRows)) targetRows)"

subsection \<open>Stage Executors\<close>

text \<open>
  Modelled from the spec: the parts of the stage executors that section 4.3 leaves open,
  missing from the source files, as parameters of the engine: the row transformation of
  the TranscriptGenerator (\<open>None\<close> for a row that fails), the per-row structural
  checks of the TranscriptValidator (given the target rows as the reference schema),
  the projection of the SignalExtractor, the label generated when no target version is
  given, and whether the caller asked for an overwrite.
\<close>

record engine =
  transform :: "row \<Rightarrow> row option"
  structural_checks :: "row list \<Rightarrow> row \<Rightarrow> Discrepancy list"
  derive_signals :: "row list \<Rightarrow> row list"
  generated_label :: "RunConfig \<Rightarrow> string"
  overwrite :: bool

text \<open>
  Modelled from the spec: the StageResult of a run in which the accessor failed
  (sections 4.1 and 7), missing from the source files: status Failed, the error as the
  message, and the number of source rows read until then.
\<close>

definition failed_result :: "stage_variant \<Rightarrow> int \<Rightarrow> engine_error \<Rightarrow> StageResult" where
  "failed_result st processed e =
     \<lparr> result_stage = st, rowsProcessed = processed, rowsWritten = 0, discrepancies = [],
       result_status = Failed, result_message = error_name e \<rparr>"

text \<open>
  Modelled from the spec: the version the TranscriptGenerator writes (section 4.3),
  missing from the source files: the target version, or a generated label when none is
  given.
\<close>

definition output_label :: "engine \<Rightarrow> RunConfig \<Rightarrow> string" where
  "output_label p cfg =
     (if cfg_targetVersion cfg = '''' then generated_label p cfg else cfg_targetVersion cfg)"

text \<open>
  Modelled from the spec: the TranscriptGenerator of section 4.3, missing from the
  source files. It reads up to \<open>limit\<close> rows of the source version, transforms them
  and writes the rows that transformed; \<open>rowsWritten\<close> counts them. A skipped row
  makes the run a PartialSuccess, and Failed when no row succeeded.
\<close>

definition Run_TranscriptGenerator :: "engine \<Rightarrow> RunConfig \<Rightarrow> accessor \<Rightarrow> StageResult \<times> accessor" where
  "Run_TranscriptGenerator p cfg acc =
     (case ReadVersion acc (cfg_scope cfg) (cfg_sourceVersion cfg) (nat (cfg_limit cfg)) of
        (Inl e, acc1) \<Rightarrow> (failed_result TranscriptGenerator 0 e, acc1)
      | (Inr rows, acc1) \<Rightarrow>
          let transformed = List.map_filter (transform p) rows;
              skipped = length (filter (\<lambda>r. transform p r = None) rows)
          in (case WriteVersion acc1 (cfg_scope cfg) (output_label p cfg) transformed
                     (overwrite p) of
                (Inl e, acc2) \<Rightarrow> (failed_result TranscriptGenerator (int (length rows)) e, acc2)
              | (Inr written, acc2) \<Rightarrow>
                  (\<lparr> result_stage = TranscriptGenerator,
                     rowsProcessed = int (length rows),
                     rowsWritten = written,
                     discrepancies = [],
                     result_status = (if skipped = 0 then Success
                                      else if written = 0 then Failed else PartialSuccess),
                     result_message = '''' \<rparr>, acc2)))"

text \<open>
  Modelled from the spec: the TranscriptValidator of section 4.3, missing from the
  source files. It reads both versions, checks each source row against the target as
  reference schema, reports every failure as a Mismatch and writes nothing. Success iff
  there is no discrepancy; the specification names no status for a completed run with
  discrepancies, which is PartialSuccess here.
\<close>

definition Run_TranscriptValidator :: "engine \<Rightarrow> RunConfig \<Rightarrow> accessor \<Rightarrow> StageResult \<times> accessor" where
  "Run_TranscriptValidator p cfg acc =
     (case ReadVersion acc (cfg_scope cfg) (cfg_sourceVersion cfg) (nat (cfg_limit cfg)) of
        (Inl e, acc1) \<Rightarrow> (failed_result TranscriptValidator 0 e, acc1)
      | (Inr src, acc1) \<Rightarrow>
          (case ReadVersion acc1 (cfg_scope cfg) (cfg_targetVersion cfg) (nat (cfg_limit cfg)) of
             (Inl e, acc2) \<Rightarrow> (failed_result TranscriptValidator (int (length src)) e, acc2)
           | (Inr tgt, acc2) \<Rightarrow>
               let ds = concat (map (\<lambda>r. map (\<lambda>d. d\<lparr>kind := Mismatch\<rparr>)
                                              (structural_checks p tgt r)) src)
               in (\<lparr> result_stage = TranscriptValidator,
                      rowsProcessed = int (length src),
                      rowsWritten = 0,
                      discrepancies = ds,
                      result_status = (if ds = [] then Success else PartialSuccess),
                      result_message = '''' \<rparr>, acc2)))"

text \<open>
  Modelled from the spec: the SignalExtractor of section 4.3, missing from the source
  files. It reads the source version, derives the signal rows and writes them to the
  target version; fewer rows written than processed is not an error.
\<close>

definition Run_SignalExtractor :: "engine \<Rightarrow> RunConfig \<Rightarrow> accessor \<Rightarrow> StageResult \<times> accessor" where
  "Run_SignalExtractor p cfg acc =
     (case ReadVersion acc (cfg_scope cfg) (cfg_sourceVersion cfg) (nat (cfg_limit cfg)) of
        (Inl e, acc1) \<Rightarrow> (failed_result SignalExtractor 0 e, acc1)
      | (Inr rows, acc1) \<Rightarrow>
          (case WriteVersion acc1 (cfg_scope cfg) (cfg_targetVersion cfg)
                  (derive_signals p rows) (overwrite p) of
             (Inl e, acc2) \<Rightarrow> (failed_result SignalExtractor (int (length rows)) e, acc2)
           | (Inr written, acc2) \<Rightarrow>
               (\<lparr> result_stage = SignalExtractor,
                  rowsProcessed = int (length rows),
                  rowsWritten = written,
                  discrepancies = [],
                  result_status = Success,
                  result_message = '''' \<rparr>, acc2)))"

text \<open>
  Modelled from the spec: the ShadowValidator of section 4.3, missing from the source
  files. It reads both versions, hands the rows to the Comparator and writes nothing.
  Success iff there is no discrepancy; PartialSuccess when there are discrepancies and
  some source row has a target row with its identifier; Failed when a side cannot be
  read, and (the specification names no status for it) when there are discrepancies and
  no row is shared.
\<close>

definition Run_ShadowValidator :: "engine \<Rightarrow> RunConfig \<Rightarrow> accessor \<Rightarrow> StageResult \<times> accessor" where
  "Run_ShadowValidator p cfg acc =
     (case ReadVersion acc (cfg_scope cfg) (cfg_sourceVersion cfg) (nat (cfg_limit cfg)) of
        (Inl e, acc1) \<Rightarrow> (failed_result ShadowValidator 0 e, acc1)
      | (Inr src, acc1) \<Rightarrow>
          (case ReadVersion acc1 (cfg_scope cfg) (cfg_targetVersion cfg) (nat (cfg_limit cfg)) of
             (Inl e, acc2) \<Rightarrow> (failed_result ShadowValidator (int (length src)) e, acc2)
           | (Inr tgt, acc2) \<Rightarrow>
               let ds = Compare src tgt;
                   shared = filter (\<lambda>s. index_by_id tgt (natural_id s) \<noteq> None) src
               in (\<lparr> result_stage = ShadowValidator,
                      rowsProcessed = int (length src),
                      rowsWritten = 0,
                      discrepancies = ds,
                      result_status = (if ds = [] then Success
                                       else if shared \<noteq> [] then PartialSuccess else Failed),
                      result_message = '''' \<rparr>, acc2)))"

subsection \<open>Run Coordinator\<close>

text \<open>
  Modelled from the spec: the stages for which section 4.1 requires a target version,
  missing from the source files.
\<close>

definition needs_target :: "stage_variant \<Rightarrow> bool" where
  "needs_target st = (st = TranscriptValidator \<or> st = ShadowValidator)"

text \<open>
  Modelled from the spec: the validation of section 4.1, missing from the source files:
  \<open>limit > 0\<close>, a non-empty source version, and for the two validator stages a target
  version that is non-empty and distinct from the source version.
\<close>

definition valid_config :: "RunConfig \<Rightarrow> bool" where
  "valid_config cfg =
     (0 < cfg_limit cfg
      \<and> cfg_sourceVersion cfg \<noteq> ''''
      \<and> (if needs_target (cfg_stage cfg)
         then cfg_targetVersion cfg \<noteq> '''' \<and> cfg_targetVersion cfg \<noteq> cfg_sourceVersion cfg
         else True))"

text \<open>
  Modelled from the spec: the selection of the Stage Executor variant matching the stage
  of the configuration (sections 4.1 and 4.3), missing from the source files. The four
  variants share the signature \<open>Run(config, accessor)\<close>.
\<close>

definition Run :: "engine \<Rightarrow> RunConfig \<Rightarrow> accessor \<Rightarrow> StageResult \<times> accessor" where
  "Run p cfg acc =
     (case cfg_stage cfg of
        TranscriptGenerator \<Rightarrow> Run_TranscriptGenerator p cfg acc
      | TranscriptValidator \<Rightarrow> Run_TranscriptValidator p cfg acc
      | SignalExtractor \<Rightarrow> Run_SignalExtractor p cfg acc
      | ShadowValidator \<Rightarrow> Run_ShadowValidator p cfg acc)"

text \<open>
  Modelled from the spec: \<open>Execute(config)\<close> of section 4.1, missing from the source
  files. A configuration that fails validation is answered with ConfigurationError and
  no executor is called; otherwise the executor of the stage runs and its StageResult
  is returned. The stage of a RunConfig is one of the four, so the name of an unknown
  stage is refused where the request is decoded, before a RunConfig exists.
\<close>

definition Execute ::
  "engine \<Rightarrow> RunConfig \<Rightarrow> accessor \<Rightarrow> (engine_error + StageResult) \<times> accessor" where
  "Execute p cfg acc =
     (if \<not> valid_config cfg then (Inl ConfigurationError, acc)
      else apfst Inr (Run p cfg acc))"

subsection \<open>Concrete runs\<close>

text \<open>An engine, a scope and a store with two versions of the same three rows.\<close>

definition example_engine :: engine where
  "example_engine =
     \<lparr> transform = Some, structural_checks = (\<lambda>reference r. []), derive_signals = (\<lambda>rows. rows),
       generated_label = (\<lambda>cfg. cfg_sourceVersion cfg @ ''-generated''), overwrite = False \<rparr>"

definition example_scope :: Scope where
  "example_scope = \<lparr> scope_projectId = ''project'', scope_dataset = ''dataset'' \<rparr>"

definition example_rows :: "row list" where
  "example_rows =
     [ [(''id'', Numeric 1), (''amt'', Numeric 10)],
       [(''id'', Numeric 2), (''amt'', Numeric 20)],
       [(''id'', Numeric 3), (''amt'', Numeric 30)] ]"

definition example_accessor :: accessor where
  "example_accessor =
     \<lparr> tables = [(example_scope, ''v1'') \<mapsto> example_rows, (example_scope, ''v2'') \<mapsto> example_rows],
       io_log = [] \<rparr>"

definition shadow_config :: RunConfig where
  "shadow_config =
     \<lparr> cfg_stage = ShadowValidator, cfg_scope = example_scope, cfg_sourceVersion = ''v1'',
       cfg_targetVersion = ''v2'', cfg_limit = 2 \<rparr>"

section \<open>Properties of the presentation layer\<close>

subsection \<open>What \<^verbatim>\<open>handleRun\<close> does\<close>

lemma requests_catch_block: "requests (fst (catch_block e)) = []"
  by (cases e) (simp_all add: finally_block_def)

lemma requests_after_fetch: "requests (fst (after_fetch net)) = []"
  by (simp add: after_fetch_def finally_block_def requests_catch_block split: promise.splits)

lemma requests_handleRun: "requests (fst (handleRun s net)) = [run_request s]"
  by (simp add: handleRun_def requests_after_fetch)






lemma three_halves_not_integer: "\<not> is_integer_json (JNumber (3 / 2))"
  by code_simp

subsection \<open>The run request\<close>

text \<open>
  C1, as the code has it. For every run triggered by the Run button, in whatever state
  the form is and whatever the network answers, \<^verbatim>\<open>handleRun\<close> issues exactly one
  request: a POST to the path \<^verbatim>\<open>/api/run\<close>, whose JSON body has exactly the six
  members stage, projectId, dataset, sourceVersion, targetVersion and limit, in this
  order. The first five are strings, the values of the form; limit is the number the
  form holds (\<^verbatim>\<open>null\<close> when it is not finite), which need not be an integer.
\<close>

theorem run_request_shape:
  "requests (fst (handleRun s net)) = [run_request s]
   \<and> url (run_request s) = ''/api/run''
   \<and> http_method (run_request s) = ''POST''
   \<and> member_names (body (run_request s)) =
        [''stage'', ''projectId'', ''dataset'', ''sourceVersion'', ''targetVersion'', ''limit'']
   \<and> member (body (run_request s)) ''stage'' = Some (JString (stage_text (stage s)))
   \<and> member (body (run_request s)) ''projectId'' = Some (JString (projectId s))
   \<and> member (body (run_request s)) ''dataset'' = Some (JString (dataset s))
   \<and> member (body (run_request s)) ''sourceVersion'' = Some (JString (sourceVersion s))
   \<and> member (body (run_request s)) ''targetVersion'' = Some (JString (targetVersion s))
   \<and> member (body (run_request s)) ''limit'' = Some (json_of_number (limit s))"
  by (simp add: requests_handleRun run_request_def payload_def)

text \<open>
  C1 as stated fails twice. After the user has typed 1.5 into the limit field, the one
  request of a run does not go to the path \<^verbatim>\<open>/run\<close>, and its limit member is the
  number 1.5, which is not an integer.
\<close>

theorem run_request_shape_counterexample:
  "requests (fst (handleRun (after_events [ChangeLimit (Finite (3 / 2))]) Pending))
     = [run_request (after_events [ChangeLimit (Finite (3 / 2))])]
   \<and> url (run_request (after_events [ChangeLimit (Finite (3 / 2))])) = ''/api/run''
   \<and> url (run_request (after_events [ChangeLimit (Finite (3 / 2))])) \<noteq> ''/run''
   \<and> member (body (run_request (after_events [ChangeLimit (Finite (3 / 2))]))) ''limit''
       = Some (JNumber (3 / 2))
   \<and> \<not> is_integer_json (JNumber (3 / 2))"
  using three_halves_not_integer
  by (simp add: requests_handleRun run_request_def payload_def after_events_def init_def
        del: is_integer_json.simps)

subsection \<open>The stage of a run request\<close>

text \<open>
  C2, as the code has it. The stage member of every run request is one of the four
  strings \<^verbatim>\<open>Transcript Generator\<close>, \<^verbatim>\<open>Transcript Validator\<close>,
  \<^verbatim>\<open>Signal Extractor\<close> and \<^verbatim>\<open>Shadow Validator\<close>: the members of the type
  \<^verbatim>\<open>Stage\<close>, each written with a space.
\<close>

theorem stage_field_values:
  "requests (fst (handleRun s net)) = [run_request s]
   \<and> member (body (run_request s)) ''stage'' = Some (JString (stage_text (stage s)))
   \<and> stage_text (stage s) \<in>
        {''Transcript Generator'', ''Transcript Validator'', ''Signal Extractor'',
         ''Shadow Validator''}"
  by (cases "stage s") (simp_all add: requests_handleRun run_request_def payload_def)

text \<open>
  C2 as stated fails in the initial state of the form: the stage member of the request
  is \<^verbatim>\<open>Transcript Generator\<close>, which is none of the four stage names
  TranscriptGenerator, TranscriptValidator, SignalExtractor and ShadowValidator.
\<close>

theorem stage_field_values_counterexample:
  "requests (fst (handleRun init Pending)) = [run_request init]
   \<and> member (body (run_request init)) ''stage'' = Some (JString ''Transcript Generator'')
   \<and> ''Transcript Generator'' \<notin>
        {''TranscriptGenerator'', ''TranscriptValidator'', ''SignalExtractor'',
         ''ShadowValidator''}"
  by (simp add: requests_handleRun run_request_def payload_def init_def)

subsection \<open>The loading flag\<close>




subsection \<open>A response that is not OK\<close>

text \<open>
  C10. When the response to the run request has a non-OK status, \<^verbatim>\<open>handleRun\<close> does
  not read the response body: its actions are the three resets, the fetch, setting the
  error to \<^verbatim>\<open>HTTP\<close>, a space and the decimal status code, and clearing the loading
  flag. The error state is exactly that string and the result state stays null.
\<close>

theorem handleRun_non_ok:
  assumes "\<not> ok res"
  shows "fst (handleRun s (Fulfilled res)) =
           [SetLoading True, SetError None, SetResult None, Fetch (run_request s),
            SetError (Some (''HTTP '' @ decimal (status res))), SetLoading False]
         \<and> ReadBody \<notin> set (fst (handleRun s (Fulfilled res)))
         \<and> error (state_after s (fst (handleRun s (Fulfilled res))))
             = Some (''HTTP '' @ decimal (status res))
         \<and> result (state_after s (fst (handleRun s (Fulfilled res)))) = None"
  using assms
  by (simp add: handleRun_def after_fetch_def finally_block_def state_after_def)

text \<open>
  C10 on a response with status 500 and an error body: the error shown is
  \<^verbatim>\<open>HTTP 500\<close>, and the body's message is never read.
\<close>

theorem handleRun_non_ok_witness:
  "\<not> ok \<lparr>ok = False, status = 500, json = Fulfilled (JObject [(''message'', JString ''boom'')])\<rparr>
   \<and> ReadBody \<notin> set (fst (handleRun init
        (Fulfilled \<lparr>ok = False, status = 500, json = Fulfilled (JObject [(''message'', JString ''boom'')])\<rparr>)))
   \<and> error (state_after init (fst (handleRun init
        (Fulfilled \<lparr>ok = False, status = 500, json = Fulfilled (JObject [(''message'', JString ''boom'')])\<rparr>))))
       = Some ''HTTP 500''
   \<and> result (state_after init (fst (handleRun init
        (Fulfilled \<lparr>ok = False, status = 500, json = Fulfilled (JObject [(''message'', JString ''boom'')])\<rparr>))))
       = None"
  using handleRun_non_ok
          [of "\<lparr>ok = False, status = 500, json = Fulfilled (JObject [(''message'', JString ''boom'')])\<rparr>" init]
  by (simp add: decimal.simps digit_char_def handleRun_def after_fetch_def finally_block_def
        state_after_def)

section \<open>Properties of the engine\<close>

subsection \<open>The index and the Comparator\<close>

lemma index_by_id_snoc:
  "index_by_id (rows @ [r]) = (index_by_id rows)(natural_id r \<mapsto> r)"
  by (simp add: index_by_id_def)

lemma index_by_id_Nil: "index_by_id [] = Map.empty"
  by (simp add: index_by_id_def)

lemma index_by_id_None: "index_by_id rows k = None \<longleftrightarrow> k \<notin> set (map natural_id rows)"
  by (induction rows rule: rev_induct) (auto simp: index_by_id_snoc index_by_id_Nil)


lemma kind_compare_columns: "d \<in> set (compare_columns s t) \<Longrightarrow> kind d = Mismatch"
  by (auto simp: compare_columns_def)


lemma filter_Missing_compare_source_row:
  "filter (\<lambda>d. kind d = Missing) (compare_source_row (index_by_id B) s) =
     (if natural_id s \<in> set (map natural_id B) then [] else [unmatched Missing s])"
proof (cases "index_by_id B (natural_id s)")
  case None
  then show ?thesis
    using index_by_id_None [of B "natural_id s"]
    by (simp add: compare_source_row_def unmatched_def)
next
  case (Some t)
  then have "natural_id s \<in> set (map natural_id B)"
    using index_by_id_None [of B "natural_id s"] by auto
  moreover have "filter (\<lambda>d. kind d = Missing) (compare_columns s t) = []"
    by (auto simp: filter_empty_conv dest: kind_compare_columns)
  ultimately show ?thesis using Some by (simp add: compare_source_row_def)
qed

lemma filter_Extra_compare_source_row:
  "filter (\<lambda>d. kind d = Extra) (compare_source_row idx s) = []"
  by (auto simp: compare_source_row_def unmatched_def filter_empty_conv
           dest: kind_compare_columns split: option.splits)

text \<open>The Missing entries are those of the source rows without a partner, in source order.\<close>

lemma Missing_of_Compare:
  "filter (\<lambda>d. kind d = Missing) (Compare A B) =
     map (unmatched Missing) (filter (\<lambda>s. natural_id s \<notin> set (map natural_id B)) A)"
proof -
  have src: "filter (\<lambda>d. kind d = Missing) (concat (map (compare_source_row (index_by_id B)) A))
        = map (unmatched Missing) (filter (\<lambda>s. natural_id s \<notin> set (map natural_id B)) A)"
    by (induction A) (simp_all add: filter_Missing_compare_source_row)
  have ext: "filter (\<lambda>d. kind d = Missing) (map (unmatched Extra) xs) = []" for xs
    by (simp add: filter_empty_conv unmatched_def)
  show ?thesis unfolding Compare_def filter_append src ext by simp
qed

text \<open>The Extra entries are those of the target rows without a partner, in target order.\<close>

lemma Extra_of_Compare:
  "filter (\<lambda>d. kind d = Extra) (Compare A B) =
     map (unmatched Extra) (filter (\<lambda>t. natural_id t \<notin> set (map natural_id A)) B)"
proof -
  have src: "filter (\<lambda>d. kind d = Extra) (concat (map (compare_source_row idx) xs)) = []"
    for idx xs
    by (induction xs) (simp_all add: filter_Extra_compare_source_row)
  have ext: "filter (\<lambda>d. kind d = Extra) (map (unmatched Extra) xs) = map (unmatched Extra) xs"
    for xs
    by (induction xs) (simp_all add: unmatched_def)
  show ?thesis unfolding Compare_def filter_append src ext by simp
qed


text \<open>The example of section 8 of the specification, with its order.\<close>

lemma Compare_spec_example:
  "Compare [ [(''id'', Numeric 1), (''amt'', Numeric 10)], [(''id'', Numeric 2), (''amt'', Numeric 20)] ]
           [ [(''id'', Numeric 1), (''amt'', Numeric 15)], [(''id'', Numeric 3), (''amt'', Numeric 5)] ] =
     [ \<lparr> rowId = Some (Numeric 1), column = Some ''amt'', sourceValue = Some (Numeric 10),
         targetValue = Some (Numeric 15), kind = Mismatch \<rparr>,
       \<lparr> rowId = Some (Numeric 2), column = None, sourceValue = None, targetValue = None,
         kind = Missing \<rparr>,
       \<lparr> rowId = Some (Numeric 3), column = None, sourceValue = None, targetValue = None,
         kind = Extra \<rparr> ]"
  by (simp add: Compare_def index_by_id_def compare_source_row_def compare_columns_def
        columns_of_def natural_id_def unmatched_def)

subsection \<open>The accessor and the executors\<close>

lemma fst_ReadVersion:
  "fst (ReadVersion acc sc version n) =
     (case tables acc (sc, version) of
        None \<Rightarrow> Inl NotFoundError
      | Some rows \<Rightarrow> Inr (take n rows))"
  by (simp add: ReadVersion_def)

lemma ReadVersion_rows:
  assumes "ReadVersion acc sc version n = (Inr rows, acc')"
  shows "length rows \<le> n"
  using assms by (auto simp: ReadVersion_def split: option.splits)

lemma rowsProcessed_failed_result: "rowsProcessed (failed_result st k e) = k"
  by (simp add: failed_result_def)

lemma Run_TranscriptGenerator_rows:
  "0 \<le> cfg_limit cfg \<Longrightarrow> rowsProcessed (fst (Run_TranscriptGenerator p cfg acc)) \<le> cfg_limit cfg"
  by (auto simp: Run_TranscriptGenerator_def Let_def rowsProcessed_failed_result
        split: prod.splits sum.splits dest!: ReadVersion_rows)

lemma Run_TranscriptValidator_rows:
  "0 \<le> cfg_limit cfg \<Longrightarrow> rowsProcessed (fst (Run_TranscriptValidator p cfg acc)) \<le> cfg_limit cfg"
  by (auto simp: Run_TranscriptValidator_def Let_def rowsProcessed_failed_result
        split: prod.splits sum.splits dest!: ReadVersion_rows)

lemma Run_SignalExtractor_rows:
  "0 \<le> cfg_limit cfg \<Longrightarrow> rowsProcessed (fst (Run_SignalExtractor p cfg acc)) \<le> cfg_limit cfg"
  by (auto simp: Run_SignalExtractor_def Let_def rowsProcessed_failed_result
        split: prod.splits sum.splits dest!: ReadVersion_rows)

lemma Run_ShadowValidator_rows:
  "0 \<le> cfg_limit cfg \<Longrightarrow> rowsProcessed (fst (Run_ShadowValidator p cfg acc)) \<le> cfg_limit cfg"
  by (auto simp: Run_ShadowValidator_def Let_def rowsProcessed_failed_result
        split: prod.splits sum.splits dest!: ReadVersion_rows)

lemma Run_rows:
  "0 \<le> cfg_limit cfg \<Longrightarrow> rowsProcessed (fst (Run p cfg acc)) \<le> cfg_limit cfg"
  by (cases "cfg_stage cfg")
     (simp_all add: Run_def Run_TranscriptGenerator_rows Run_TranscriptValidator_rows
        Run_SignalExtractor_rows Run_ShadowValidator_rows)

lemma Execute_valid: "valid_config cfg \<Longrightarrow> Execute p cfg acc = apfst Inr (Run p cfg acc)"
  by (simp add: Execute_def)

subsection \<open>Validation\<close>

text \<open>
  C3. \<open>Execute(config)\<close> fails with ConfigurationError whenever the limit is not
  greater than 0, or the source version is empty, or the stage is TranscriptValidator
  or ShadowValidator and the target version is empty or equal to the source version.
  The accessor is returned as it was given, its log of calls included: the failure
  comes before any I/O and no executor is run.
\<close>

theorem Execute_ConfigurationError:
  assumes "\<not> 0 < cfg_limit cfg
           \<or> cfg_sourceVersion cfg = ''''
           \<or> ((cfg_stage cfg = TranscriptValidator \<or> cfg_stage cfg = ShadowValidator)
               \<and> (cfg_targetVersion cfg = '''' \<or> cfg_targetVersion cfg = cfg_sourceVersion cfg))"
  shows "Execute p cfg acc = (Inl ConfigurationError, acc)"
  using assms by (auto simp: Execute_def valid_config_def needs_target_def)

text \<open>
  C3 on the case the specification names: the stage TranscriptValidator with an empty
  target version, all else in order.
\<close>

theorem Execute_ConfigurationError_witness:
  "cfg_stage (shadow_config\<lparr>cfg_stage := TranscriptValidator, cfg_targetVersion := ''''\<rparr>)
     = TranscriptValidator
   \<and> cfg_targetVersion (shadow_config\<lparr>cfg_stage := TranscriptValidator, cfg_targetVersion := ''''\<rparr>)
     = ''''
   \<and> Execute example_engine
        (shadow_config\<lparr>cfg_stage := TranscriptValidator, cfg_targetVersion := ''''\<rparr>)
        example_accessor
     = (Inl ConfigurationError, example_accessor)"
  using Execute_ConfigurationError
          [of "shadow_config\<lparr>cfg_stage := TranscriptValidator, cfg_targetVersion := ''''\<rparr>"
              example_engine example_accessor]
  by (simp add: shadow_config_def)

subsection \<open>The row limit\<close>

text \<open>
  C4. \<open>ReadVersion(scope, version, limit)\<close> yields at most \<open>limit\<close> rows, the first
  ones of the stored version, however many the version contains; and for every valid
  RunConfig \<open>Execute\<close> returns a StageResult whose \<open>rowsProcessed\<close> is at most the
  limit of the configuration.
\<close>

theorem rows_within_limit:
  "(fst (ReadVersion acc sc version n) = Inr rows \<longrightarrow>
      length rows \<le> n \<and> (\<exists>stored. tables acc (sc, version) = Some stored \<and> rows = take n stored))
   \<and> (valid_config cfg \<longrightarrow>
        (\<exists>res. fst (Execute p cfg acc) = Inr res \<and> rowsProcessed res \<le> cfg_limit cfg))"
proof (intro conjI impI)
  assume "fst (ReadVersion acc sc version n) = Inr rows"
  then show "length rows \<le> n"
    by (auto simp: fst_ReadVersion split: option.splits)
next
  assume "fst (ReadVersion acc sc version n) = Inr rows"
  then show "\<exists>stored. tables acc (sc, version) = Some stored \<and> rows = take n stored"
    by (auto simp: fst_ReadVersion split: option.splits)
next
  assume v: "valid_config cfg"
  then have "0 \<le> cfg_limit cfg" by (simp add: valid_config_def)
  then have "rowsProcessed (fst (Run p cfg acc)) \<le> cfg_limit cfg"
    by (rule Run_rows)
  moreover have "fst (Execute p cfg acc) = Inr (fst (Run p cfg acc))"
    using v by (simp add: Execute_valid)
  ultimately show "\<exists>res. fst (Execute p cfg acc) = Inr res \<and> rowsProcessed res \<le> cfg_limit cfg"
    by blast
qed

text \<open>
  C4 on a version of three rows read with limit 2, and on a ShadowValidator run with
  limit 2 over two versions of three rows: two rows are read, two rows are processed.
\<close>

theorem rows_within_limit_witness:
  "length example_rows = 3
   \<and> fst (ReadVersion example_accessor example_scope ''v1'' 2) = Inr (take 2 example_rows)
   \<and> length (take 2 example_rows) \<le> 2
   \<and> valid_config shadow_config
   \<and> (\<exists>res. fst (Execute example_engine shadow_config example_accessor) = Inr res
             \<and> rowsProcessed res \<le> cfg_limit shadow_config)
   \<and> rowsProcessed (fst (Run example_engine shadow_config example_accessor)) = 2"
  using rows_within_limit
          [of example_accessor example_scope "''v1''" 2 "take 2 example_rows"
              shadow_config example_engine]
  by (simp add: valid_config_def needs_target_def shadow_config_def
        example_accessor_def example_rows_def example_scope_def
        Run_def Run_ShadowValidator_def ReadVersion_def Let_def)

subsection \<open>Symmetry of the Comparator\<close>

text \<open>
  C5. For all row sequences A and B, the Missing discrepancies of \<open>Compare(A, B)\<close> and
  the Extra discrepancies of \<open>Compare(B, A)\<close> have the same row ids, in the same
  order, and so have the Extra discrepancies of \<open>Compare(A, B)\<close> and the Missing
  discrepancies of \<open>Compare(B, A)\<close>; the entries differ in their kind only.
\<close>

theorem Compare_role_swap:
  "map rowId (filter (\<lambda>d. kind d = Missing) (Compare A B))
     = map rowId (filter (\<lambda>d. kind d = Extra) (Compare B A))
   \<and> map rowId (filter (\<lambda>d. kind d = Extra) (Compare A B))
     = map rowId (filter (\<lambda>d. kind d = Missing) (Compare B A))
   \<and> map (\<lambda>d. d\<lparr>kind := Extra\<rparr>) (filter (\<lambda>d. kind d = Missing) (Compare A B))
     = filter (\<lambda>d. kind d = Extra) (Compare B A)
   \<and> map (\<lambda>d. d\<lparr>kind := Missing\<rparr>) (filter (\<lambda>d. kind d = Extra) (Compare A B))
     = filter (\<lambda>d. kind d = Missing) (Compare B A)"
  by (simp add: Missing_of_Compare Extra_of_Compare unmatched_def comp_def)

subsection \<open>Shadow validation of identical versions\<close>



end
